theory Spec2Isabelle
  imports Complex_Main
begin

section \<open>Beam spacing calculator: the computation of \<open>src/App.jsx\<close>\<close>

text \<open>
  The component \<open>BeamSpacingCalculator\<close> holds five inputs (ceiling height \<open>C\<close>, work
  plane \<open>D\<close>, beam angle \<open>B\<close>, angle mode, spacing factor \<open>s\<close>), derives a result
  with \<open>computeAll\<close>, two overlap figures, a feet-and-inches rendering of lengths and
  the coordinates of a schematic drawing.

  Numbers. A JavaScript number is an IEEE double. The arithmetic of the geometry and of
  the drawing is embedded over \<^typ>\<open>real\<close>: a finite double is read as the real number
  it denotes and \<open>+\<close>, \<open>-\<close>, \<open>*\<close>, \<open>/\<close>, \<open>Math.max\<close>, \<open>Math.floor\<close>, \<open>Math.round\<close>,
  \<open>Math.abs\<close>, \<open>Math.tan\<close> and \<open>Math.PI\<close> as the exact operations; rounding error,
  overflow and signed zero are outside the model. Three places where the exact operations
  are not what a double computes are worth naming:
  \<^item> \<open>Math.tan\<close> never meets a pole, since no double is an odd multiple of \<open>\<pi>/2\<close>; in
    HOL \<^term>\<open>tan (pi / 2) = (0::real)\<close>. At a half-angle of \<open>90\<close> degrees the touch
    spacing of the model is \<open>0\<close> where the code's is a large positive number; the
    statements below hold for both.
  \<^item> rounding keeps the order of two products but can make two different reals the same
    double, so the order of two chosen spacings is stated with \<open>\<le>\<close>, not with \<open><\<close>.
  \<^item> division by zero does not occur: the only divisors are the constants \<open>180\<close>,
    \<open>12\<close>, \<open>8\<close>, \<open>2\<close>, the scale \<open>totalWidthIn * 1.1\<close>, which is at least \<open>1.1\<close>, and
    \<open>A_touch\<close> under the guard \<open>A_touch > 0\<close>.

  The formatter \<open>inchesToFeetIn\<close> is the one function that inspects non-finite values
  (\<open>isFinite\<close>), so its argument is a \<open>jsnum\<close>: a real, an infinity or NaN.
\<close>

subsection \<open>Numbers and strings\<close>

datatype jsnum = Num real | PosInfinity | NegInfinity | NaN

text \<open>The global \<open>isFinite\<close> on a number: false for NaN and both infinities.\<close>

fun isFinite :: "jsnum \<Rightarrow> bool" where
  "isFinite (Num x) = True"
| "isFinite PosInfinity = False"
| "isFinite NegInfinity = False"
| "isFinite NaN = False"

text \<open>
  Strings are \<^typ>\<open>string\<close>. The three glyphs of the source outside ASCII are written as
  their UTF-8 bytes: the en dash U+2013 of the placeholder, and the prime U+2032 and double
  prime U+2033 that the template of \<open>base\<close> puts after \<open>${feet}\<close> and after \<open>${inStr}\<close>.
\<close>

definition enDash :: string where
  "enDash = [CHR 0xE2, CHR 0x80, CHR 0x93]"

definition prime :: string where
  "prime = [CHR 0xE2, CHR 0x80, CHR 0xB2]"

definition doublePrime :: string where
  "doublePrime = [CHR 0xE2, CHR 0x80, CHR 0xB3]"

text \<open>
  Number to string, for the values the templates interpolate: the results of
  \<open>Math.floor\<close> and \<open>Math.round\<close>, which are integers. JavaScript prints an integer of
  magnitude below \<open>10^21\<close> as its decimal digits, which is what \<open>numToString\<close> does (for
  larger magnitudes JavaScript switches to exponent notation, which is not modelled).
\<close>

definition digitChar :: "nat \<Rightarrow> char" where
  "digitChar d = ''0123456789'' ! d"

fun digits10 :: "nat \<Rightarrow> string" where
  "digits10 n = (if n < 10 then [digitChar n] else digits10 (n div 10) @ [digitChar (n mod 10)])"

declare digits10.simps [simp del]

definition numToString :: "int \<Rightarrow> string" where
  "numToString i = (if i < 0 then ''-'' @ digits10 (nat (- i)) else digits10 (nat i))"

subsection \<open>Core math helpers: \<open>toRadians\<close> and \<open>computeAll\<close>\<close>

definition toRadians :: "real \<Rightarrow> real" where
  "toRadians deg = (deg * pi) / 180"

text \<open>
  The object \<open>{ MH, thetaDeg, r, A_touch, A }\<close> that \<open>computeAll\<close> returns (the spec's
  SpacingResult: mountingHeight, halfAngleDegrees, radius, touchSpacing, chosenSpacing).
  The fields carry the prefix \<open>res_\<close> so that \<open>r\<close> and \<open>A\<close> stay free for variables.
\<close>

record SpacingResult =
  res_MH :: real
  res_thetaDeg :: real
  res_r :: real
  res_A_touch :: real
  res_A :: real

text \<open>
  \<open>function computeAll({ C, D, B, angleMode = 'full', s = 1 })\<close>. The two defaults apply
  when the property is absent (\<open>undefined\<close>), which is \<^const>\<open>None\<close> here. The mode is
  compared with \<open>===\<close> against the string \<open>'full'\<close>; any other string takes the else branch.
\<close>

definition computeAll :: "real \<Rightarrow> real \<Rightarrow> real \<Rightarrow> string option \<Rightarrow> real option \<Rightarrow> SpacingResult" where
  "computeAll C D B angleModeArg sArg =
    (let angleMode = (case angleModeArg of None \<Rightarrow> ''full'' | Some m \<Rightarrow> m);
         s = (case sArg of None \<Rightarrow> 1 | Some v \<Rightarrow> v);
         MH = max 0 (C - D);
         thetaDeg = (if angleMode = ''full'' then B / 2 else B);
         theta = toRadians thetaDeg;
         r = MH * tan theta;
         A_touch = 2 * r;
         A = s * A_touch
     in \<lparr> res_MH = MH, res_thetaDeg = thetaDeg, res_r = r, res_A_touch = A_touch, res_A = A \<rparr>)"

subsection \<open>Derived values for the UI\<close>

text \<open>
  \<open>const overlap = Math.max(0, A_touch - A)\<close> and
  \<open>const overlapPct = A_touch > 0 ? (overlap / A_touch) * 100 : 0\<close>.
\<close>

definition overlap :: "SpacingResult \<Rightarrow> real" where
  "overlap res = max 0 (res_A_touch res - res_A res)"

definition overlapPct :: "SpacingResult \<Rightarrow> real" where
  "overlapPct res = (if res_A_touch res > 0 then (overlap res / res_A_touch res) * 100 else 0)"

subsection \<open>The unit formatter \<open>inchesToFeetIn\<close>\<close>

text \<open>
  The locals of the function body, one definition each, as functions of the finite
  argument \<open>x\<close> (the source reassigns \<open>inches\<close> and \<open>remIn\<close>; the second value of
  \<open>remIn\<close> is \<open>fmt_eighths\<close>).
\<close>

definition fmt_sign :: "real \<Rightarrow> int" where
  "fmt_sign x = (if x < 0 then - 1 else 1)"

definition fmt_inches :: "real \<Rightarrow> real" where
  "fmt_inches x = \<bar>x\<bar>"

definition fmt_feet :: "real \<Rightarrow> int" where
  "fmt_feet x = \<lfloor>fmt_inches x / 12\<rfloor>"

definition fmt_remIn :: "real \<Rightarrow> real" where
  "fmt_remIn x = fmt_inches x - of_int (fmt_feet x) * 12"

text \<open>\<open>Math.round\<close> rounds a half towards \<open>+\<infinity>\<close>, as \<^const>\<open>round\<close> does.\<close>

definition fmt_eighths :: "real \<Rightarrow> real" where
  "fmt_eighths x = of_int (round (fmt_remIn x * 8)) / 8"

definition fmt_inchesWhole :: "real \<Rightarrow> int" where
  "fmt_inchesWhole x = \<lfloor>fmt_eighths x\<rfloor>"

definition fmt_frac :: "real \<Rightarrow> real" where
  "fmt_frac x = fmt_eighths x - of_int (fmt_inchesWhole x)"

definition fmt_num :: "real \<Rightarrow> int" where
  "fmt_num x = round (fmt_frac x * 8)"

text \<open>
  The source ends \<open>fracStr\<close> with \<open>.replace(/\b1\/8\b/, "1/8")\<close>, which replaces the text
  \<open>1/8\<close> by itself and so changes nothing.
\<close>

definition fmt_fracStr :: "real \<Rightarrow> string" where
  "fmt_fracStr x =
    (let den = 8; num = fmt_num x
     in if num = 0 then '''' else numToString num @ ''/'' @ numToString den)"

definition fmt_inStr :: "real \<Rightarrow> string" where
  "fmt_inStr x =
    numToString (fmt_inchesWhole x) @ (if fmt_fracStr x \<noteq> '''' then '' '' @ fmt_fracStr x else '''')"

definition fmt_base :: "real \<Rightarrow> string" where
  "fmt_base x = numToString (fmt_feet x) @ prime @ ''-'' @ fmt_inStr x @ doublePrime"

fun inchesToFeetIn :: "jsnum \<Rightarrow> string" where
  "inchesToFeetIn (Num x) = (if fmt_sign x < 0 then ''-'' @ fmt_base x else fmt_base x)"
| "inchesToFeetIn PosInfinity = enDash"
| "inchesToFeetIn NegInfinity = enDash"
| "inchesToFeetIn NaN = enDash"

subsection \<open>The drawing\<close>

definition svgWidth :: real where "svgWidth = 760"
definition svgHeight :: real where "svgHeight = 360"

text \<open>\<open>const margin = { top: 24, right: 24, bottom: 24, left: 24 }\<close>\<close>

definition margin_top :: real where "margin_top = 24"
definition margin_right :: real where "margin_right = 24"
definition margin_bottom :: real where "margin_bottom = 24"
definition margin_left :: real where "margin_left = 24"

definition MHpx :: real where "MHpx = 240"
definition yCeil :: real where "yCeil = margin_top"
definition yWork :: real where "yWork = margin_top + MHpx"

definition totalWidthIn :: "SpacingResult \<Rightarrow> real" where
  "totalWidthIn res = max 1 (res_A res + 2 * res_r res)"

definition drawableWidth :: real where
  "drawableWidth = svgWidth - margin_left - margin_right"

definition xScale :: "SpacingResult \<Rightarrow> real" where
  "xScale res = drawableWidth / (totalWidthIn res * 1.1)"

definition center :: real where
  "center = margin_left + drawableWidth / 2"

definition xLeft :: "SpacingResult \<Rightarrow> real" where
  "xLeft res = center - (res_A res / 2) * xScale res"

definition xRight :: "SpacingResult \<Rightarrow> real" where
  "xRight res = center + (res_A res / 2) * xScale res"

definition beamFootLeftL :: "SpacingResult \<Rightarrow> real" where
  "beamFootLeftL res = xLeft res - res_r res * xScale res"

definition beamFootLeftR :: "SpacingResult \<Rightarrow> real" where
  "beamFootLeftR res = xLeft res + res_r res * xScale res"

definition beamFootRightL :: "SpacingResult \<Rightarrow> real" where
  "beamFootRightL res = xRight res - res_r res * xScale res"

definition beamFootRightR :: "SpacingResult \<Rightarrow> real" where
  "beamFootRightR res = xRight res + res_r res * xScale res"

text \<open>
  The children of the \<open><svg>\<close> element, in document order. An element keeps its
  coordinates; stroke, class and transform attributes are left out. A text label that
  interpolates numbers (\<open>toFixed\<close>) is kept as the numbers it shows:
  \<open>LabelA\<close> is \<open>`A = ${A.toFixed(2)}"`\<close>, \<open>LabelMH\<close> is \<open>MH = {MH.toFixed(1)}"\<close> and
  \<open>LabelOverlap\<close> is \<open>`overlap = ${overlap.toFixed(2)}" (${overlapPct.toFixed(0)}%)`\<close>.
  \<open>DimArrow x1 x2 y label\<close> is the component of that name with its four props.
\<close>

datatype label = Caption string | LabelA real | LabelMH real | LabelOverlap real real

datatype svg =
    Line real real real real
  | Circle real real real
  | Text real real label
  | DimArrow real real real label
  | Group "svg list"

definition diagram :: "SpacingResult \<Rightarrow> svg list" where
  "diagram res =
    [ Line margin_left yCeil (svgWidth - margin_right) yCeil,
      Text margin_left (yCeil - 8) (Caption ''Ceiling''),
      Line margin_left yWork (svgWidth - margin_right) yWork,
      Text margin_left (yWork + 14) (Caption ''Work plane''),
      Circle (xLeft res) yCeil 5,
      Circle (xRight res) yCeil 5,
      Line (xLeft res) yCeil (beamFootLeftL res) yWork,
      Line (xLeft res) yCeil (beamFootLeftR res) yWork,
      Line (xRight res) yCeil (beamFootRightL res) yWork,
      Line (xRight res) yCeil (beamFootRightR res) yWork,
      DimArrow (xLeft res) (xRight res) (yCeil + 24) (LabelA (res_A res)),
      Group
        [ Line (svgWidth - margin_right - 32) yCeil (svgWidth - margin_right - 32) yWork,
          Text (svgWidth - margin_right - 36) ((yCeil + yWork) / 2) (LabelMH (res_MH res)) ] ]
    @ (if overlap res > 0
       then [ Group [ DimArrow (beamFootLeftR res) (beamFootRightL res) (yWork - 14)
                        (LabelOverlap (overlap res) (overlapPct res)) ] ]
       else [])
    @ [ Text (xLeft res) (yCeil - 8) (Caption ''Fixture''),
        Text (xRight res) (yCeil - 8) (Caption ''Fixture'') ]"

text \<open>
  The component as a whole: its state is the five inputs, all present, and the drawing is
  that of the result \<open>computeAll({ C, D, B, angleMode, s })\<close>.
\<close>

definition BeamSpacingCalculator :: "real \<Rightarrow> real \<Rightarrow> real \<Rightarrow> string \<Rightarrow> real \<Rightarrow> svg list" where
  "BeamSpacingCalculator C D B angleMode s = diagram (computeAll C D B (Some angleMode) (Some s))"

text \<open>
  The overlap annotation among the children: a group holding one \<open>DimArrow\<close> whose label is
  the overlap label.
\<close>

fun isOverlapAnnotation :: "svg \<Rightarrow> bool" where
  "isOverlapAnnotation (Group [DimArrow x1 x2 y (LabelOverlap a b)]) = True"
| "isOverlapAnnotation _ = False"

subsection \<open>The component's state and its event handlers\<close>

text \<open>
  The five \<open>useState\<close> cells (lines 5 to 9) with their initial values, and \<open>clamp\<close>
  (line 11).
\<close>

record Inputs =
  in_C :: real
  in_D :: real
  in_B :: real
  in_angleMode :: string
  in_s :: real

definition initialInputs :: Inputs where
  "initialInputs = \<lparr> in_C = 108, in_D = 36, in_B = 30, in_angleMode = ''full'', in_s = 0.9 \<rparr>"

definition clamp :: "real \<Rightarrow> real \<Rightarrow> real \<Rightarrow> real" where
  "clamp v lo hi = min (max v lo) hi"

text \<open>
  The events that write the state, each with the number or string the widget hands to its
  handler: the Reset button, the three number inputs for \<open>C\<close>, \<open>D\<close> and \<open>B\<close>, the mode
  \<open><select>\<close>, the range slider and the number input for \<open>s\<close>, and the three preset
  buttons.
\<close>

datatype event =
    ResetClick
  | ChangeC real
  | ChangeD real
  | ChangeB real
  | ChangeAngleMode string
  | SlideS real
  | TypeS real
  | PresetNoOverlap
  | PresetTenPercent
  | PresetHalfAngle

fun handle :: "Inputs \<Rightarrow> event \<Rightarrow> Inputs" where
  "handle st ResetClick =
     \<lparr> in_C = 108, in_D = 36, in_B = 30, in_angleMode = ''full'', in_s = 0.9 \<rparr>"
| "handle st (ChangeC v) = st\<lparr> in_C := v \<rparr>"
| "handle st (ChangeD v) = st\<lparr> in_D := v \<rparr>"
| "handle st (ChangeB v) = st\<lparr> in_B := v \<rparr>"
| "handle st (ChangeAngleMode m) = st\<lparr> in_angleMode := m \<rparr>"
| "handle st (SlideS v) = st\<lparr> in_s := v \<rparr>"
| "handle st (TypeS v) = st\<lparr> in_s := clamp v 0.6 1.2 \<rparr>"
| "handle st PresetNoOverlap =
     \<lparr> in_C = 108, in_D = 36, in_B = 30, in_angleMode = ''full'', in_s = 1 \<rparr>"
| "handle st PresetTenPercent =
     \<lparr> in_C = 108, in_D = 36, in_B = 30, in_angleMode = ''full'', in_s = 0.9 \<rparr>"
| "handle st PresetHalfAngle =
     \<lparr> in_C = 108, in_D = 36, in_B = 15, in_angleMode = ''half'', in_s = 1 \<rparr>"

text \<open>
  What a widget can hand over. The range slider (\<open>min={0.6} max={1.2}\<close>) only takes values
  between its bounds, and the \<open><select>\<close> has the two options \<open>full\<close> and \<open>half\<close>. The number
  inputs accept any number: their \<open>min\<close> and \<open>max\<close> attributes do not stop a typed value, and
  only the handler of the \<open>s\<close> input clamps.
\<close>

fun deliverable :: "event \<Rightarrow> bool" where
  "deliverable (SlideS v) = (0.6 \<le> v \<and> v \<le> 1.2)"
| "deliverable (ChangeAngleMode m) = (m = ''full'' \<or> m = ''half'')"
| "deliverable _ = True"

text \<open>
  The state after a sequence of events, and the result the component derives from a state
  (line 26: \<open>computeAll({ C, D, B, angleMode, s })\<close>).
\<close>

fun run :: "Inputs \<Rightarrow> event list \<Rightarrow> Inputs" where
  "run st [] = st"
| "run st (ev # evs) = run (handle st ev) evs"

definition derived :: "Inputs \<Rightarrow> SpacingResult" where
  "derived st =
     computeAll (in_C st) (in_D st) (in_B st) (Some (in_angleMode st)) (Some (in_s st))"

section \<open>Properties\<close>

subsection \<open>Geometry: \<open>computeAll\<close> and the derived overlap\<close>

text \<open>
  Claim C1. With \<open>D < C\<close>, a beam angle \<open>B\<close> in \<open>(0, 170]\<close> and mode \<open>'full'\<close>, the touch
  spacing is \<open>2 (C - D) tan (B/2 in radians)\<close>; the radius is the mounting height times
  the tangent of the half-angle, the touch spacing is twice the radius, the mounting
  height is \<open>C - D\<close> and the half-angle is \<open>B / 2\<close>. The spacing factor plays no part.
\<close>

theorem computeAll_full_touch_spacing:
  assumes "D < C" and "0 < B" and "B \<le> 170"
  shows "res_A_touch (computeAll C D B (Some ''full'') s) = 2 * (C - D) * tan ((B / 2) * pi / 180)
       \<and> res_r (computeAll C D B (Some ''full'') s)
           = res_MH (computeAll C D B (Some ''full'') s)
             * tan (toRadians (res_thetaDeg (computeAll C D B (Some ''full'') s)))
       \<and> res_A_touch (computeAll C D B (Some ''full'') s)
           = 2 * res_r (computeAll C D B (Some ''full'') s)
       \<and> res_MH (computeAll C D B (Some ''full'') s) = C - D
       \<and> res_thetaDeg (computeAll C D B (Some ''full'') s) = B / 2"
  using assms by (simp add: computeAll_def Let_def toRadians_def)

theorem computeAll_full_touch_spacing_witness:
  "(36::real) < 108 \<and> (0::real) < 90 \<and> (90::real) \<le> 170
   \<and> res_A_touch (computeAll 108 36 90 (Some ''full'') (Some 1)) = 144"
  using computeAll_full_touch_spacing [of 36 108 90 "Some 1"] by (simp add: tan_45)

text \<open>
  Claim C2. When the work plane is not below the ceiling (\<open>C \<le> D\<close>), whatever the beam
  angle, the mode and the spacing factor (present or defaulted), the mounting height, the
  radius, the touch spacing, the chosen spacing, the overlap and the overlap percentage
  are all \<open>0\<close>.
\<close>

theorem computeAll_degenerate_zero:
  assumes "C \<le> D"
  shows "res_MH (computeAll C D B m s) = 0 \<and> res_r (computeAll C D B m s) = 0
       \<and> res_A_touch (computeAll C D B m s) = 0 \<and> res_A (computeAll C D B m s) = 0
       \<and> overlap (computeAll C D B m s) = 0 \<and> overlapPct (computeAll C D B m s) = 0"
  using assms by (simp add: computeAll_def Let_def overlap_def overlapPct_def)

theorem computeAll_degenerate_zero_witness:
  "(36::real) \<le> 108 \<and> res_MH (computeAll 36 108 30 (Some ''full'') (Some 0.9)) = 0
     \<and> res_A (computeAll 36 108 30 (Some ''full'') (Some 0.9)) = 0
     \<and> overlapPct (computeAll 36 108 30 (Some ''full'') (Some 0.9)) = 0"
  using computeAll_degenerate_zero [of 36 108 30 "Some ''full''" "Some 0.9"] by simp

text \<open>
  Claim C4. A beam angle \<open>2k\<close> read as the full angle and a beam angle \<open>k\<close> read as the
  half-angle give the same touch spacing, for every \<open>C\<close>, \<open>D\<close> and \<open>k\<close> and whatever the
  spacing factors. Over the reals the two sides are equal, not only close.
\<close>

theorem half_full_equivalence:
  "res_A_touch (computeAll C D (2 * k) (Some ''full'') s)
     = res_A_touch (computeAll C D k (Some ''half'') s')"
  by (simp add: computeAll_def Let_def)

text \<open>
  The touch spacing is not negative when the half-angle used lies in \<open>[0, 90)\<close> degrees,
  whatever the heights are (the mounting height is floored at \<open>0\<close>).
\<close>

lemma touch_spacing_nonneg:
  assumes "0 \<le> res_thetaDeg (computeAll C D B m s)"
    and "res_thetaDeg (computeAll C D B m s) < 90"
  shows "0 \<le> res_A_touch (computeAll C D B m s)"
proof -
  let ?t = "res_thetaDeg (computeAll C D B m s)"
  have "0 \<le> toRadians ?t" "toRadians ?t < pi / 2"
    using assms by (simp_all add: toRadians_def)
  then have "0 \<le> tan (toRadians ?t)"
    by (cases "toRadians ?t = 0") (simp_all add: tan_gt_zero less_imp_le)
  moreover have "res_A_touch (computeAll C D B m s) = 2 * (max 0 (C - D) * tan (toRadians ?t))"
    by (simp add: computeAll_def Let_def)
  ultimately show ?thesis by simp
qed

text \<open>
  Claim C5, as stated: with \<open>C\<close>, \<open>D\<close>, \<open>B\<close> and the mode fixed, the chosen spacing is
  strictly increasing in \<open>s > 0\<close>. It fails where the mounting height is floored at \<open>0\<close>:
  with \<open>C = 36\<close> and \<open>D = 108\<close> the chosen spacing is \<open>0\<close> for \<open>s = 0.9\<close> and for \<open>s = 1\<close>.
\<close>

theorem chosen_spacing_constant_when_floored:
  "(0::real) < 0.9 \<and> (0.9::real) < 1
   \<and> \<not> res_A (computeAll 36 108 30 (Some ''full'') (Some 0.9))
        < res_A (computeAll 36 108 30 (Some ''full'') (Some 1))"
  by (simp add: computeAll_def Let_def)

text \<open>
  Nor does the order survive a negative touch spacing: a half-angle of \<open>135\<close> degrees has
  tangent \<open>-1\<close>, the touch spacing is \<open>-144\<close>, and the larger factor gives the smaller
  chosen spacing.
\<close>

lemma tan_three_quarters_pi: "tan (3 * pi / 4) = (- 1 :: real)"
proof -
  have "(3 * pi / 4 :: real) = - (pi / 4) + pi" by simp
  then have "tan (3 * pi / 4 :: real) = tan (- (pi / 4) + pi)" by simp
  also have "\<dots> = tan (- (pi / 4))" by (rule tan_periodic_pi)
  also have "\<dots> = - 1" by (simp add: tan_45)
  finally show ?thesis .
qed

lemma chosen_spacing_decreasing_when_touch_negative:
  "res_A_touch (computeAll 108 36 135 (Some ''half'') (Some 0.9)) = - 144
   \<and> res_A (computeAll 108 36 135 (Some ''half'') (Some 1))
       < res_A (computeAll 108 36 135 (Some ''half'') (Some 0.9))"
  by (simp add: computeAll_def Let_def toRadians_def tan_three_quarters_pi)

text \<open>
  Claim C5, amended: with \<open>C\<close>, \<open>D\<close>, \<open>B\<close> and the mode fixed so that the touch spacing is
  not negative, the chosen spacing does not decrease as \<open>s\<close> grows over \<open>s > 0\<close>: for
  \<open>0 < s1 < s2\<close> the chosen spacing for \<open>s1\<close> is at most the one for \<open>s2\<close>. The strict
  order is not kept even for a positive touch spacing: over the reals the products differ,
  but the doubles \<open>s1 * A_touch\<close> and \<open>s2 * A_touch\<close> of two neighbouring factors can round
  to the same number, while rounding never reverses their order.
\<close>

theorem chosen_spacing_nondecreasing:
  assumes "0 \<le> res_A_touch (computeAll C D B m (Some s1))" and "0 < s1" and "s1 < s2"
  shows "res_A (computeAll C D B m (Some s1)) \<le> res_A (computeAll C D B m (Some s2))"
proof -
  have "res_A (computeAll C D B m (Some s1)) = s1 * res_A_touch (computeAll C D B m (Some s1))"
       "res_A (computeAll C D B m (Some s2)) = s2 * res_A_touch (computeAll C D B m (Some s1))"
    by (simp_all add: computeAll_def Let_def)
  then show ?thesis using assms by (simp add: mult_right_mono)
qed

theorem chosen_spacing_nondecreasing_witness:
  "0 \<le> res_A_touch (computeAll 108 36 90 (Some ''full'') (Some 0.9))
   \<and> (0::real) < 0.9 \<and> (0.9::real) < 1
   \<and> res_A (computeAll 108 36 90 (Some ''full'') (Some 0.9))
       \<le> res_A (computeAll 108 36 90 (Some ''full'') (Some 1))"
proof -
  have h: "0 \<le> res_A_touch (computeAll 108 36 90 (Some ''full'') (Some 0.9))"
    by (simp add: computeAll_def Let_def toRadians_def tan_45)
  have h1: "(0::real) < 0.9" and h2: "(0.9::real) < 1" by simp_all
  from chosen_spacing_nondecreasing [OF h h1 h2] h h1 h2 show ?thesis by blast
qed

text \<open>
  The spacing factor of the component never leaves \<open>[0.6, 1.2]\<close>: it starts at \<open>0.9\<close>, the
  buttons set \<open>0.9\<close> or \<open>1\<close>, the slider hands over a value between its bounds and the
  handler of the number input clamps.
\<close>

lemma handle_keeps_s_in_range:
  assumes "0.6 \<le> in_s st \<and> in_s st \<le> 1.2" and "deliverable ev"
  shows "0.6 \<le> in_s (handle st ev) \<and> in_s (handle st ev) \<le> 1.2"
  using assms by (cases ev) (simp_all add: clamp_def)

lemma run_keeps_s_in_range:
  assumes "0.6 \<le> in_s st \<and> in_s st \<le> 1.2" and "list_all deliverable evs"
  shows "0.6 \<le> in_s (run st evs) \<and> in_s (run st evs) \<le> 1.2"
  using assms
proof (induction evs arbitrary: st)
  case Nil
  then show ?case by simp
next
  case (Cons ev evs)
  from Cons.prems have "0.6 \<le> in_s (handle st ev) \<and> in_s (handle st ev) \<le> 1.2"
    using handle_keeps_s_in_range [of st ev] by simp
  moreover from Cons.prems have "list_all deliverable evs" by simp
  ultimately show ?case using Cons.IH [of "handle st ev"] by simp
qed

lemma spacing_factor_in_range:
  assumes "list_all deliverable evs"
  shows "0.6 \<le> in_s (run initialInputs evs) \<and> in_s (run initialInputs evs) \<le> 1.2"
  using run_keeps_s_in_range [of initialInputs evs] assms by (simp add: initialInputs_def)

text \<open>
  For a spacing factor that is not negative the overlap percentage is at most \<open>100\<close>,
  whatever the other inputs are.
\<close>

lemma overlapPct_le_100:
  assumes "0 \<le> s"
  shows "overlapPct (computeAll C D B m (Some s)) \<le> 100"
proof -
  let ?r = "computeAll C D B m (Some s)"
  have A: "res_A ?r = s * res_A_touch ?r" by (simp add: computeAll_def Let_def)
  show ?thesis
  proof (cases "res_A_touch ?r > 0")
    case True
    then have "0 \<le> s * res_A_touch ?r" using assms by simp
    then have "overlap ?r \<le> res_A_touch ?r" using True by (simp add: overlap_def A)
    then have "overlap ?r / res_A_touch ?r \<le> 1" using True by (simp add: divide_le_eq)
    then have "overlap ?r / res_A_touch ?r * 100 \<le> 1 * 100" by (rule mult_right_mono) simp
    then show ?thesis using True by (simp add: overlapPct_def)
  next
    case False
    then show ?thesis by (simp add: overlapPct_def)
  qed
qed

text \<open>
  Claim C6. For every input tuple the component can hold, that is the state after any
  sequence of events its widgets can deliver, the derived overlap is non-negative and
  equals \<open>max(0, touchSpacing - chosenSpacing)\<close>, and the derived overlap percentage lies
  in \<open>[0, 100]\<close> and is \<open>overlap / touchSpacing * 100\<close> when the touch spacing is positive
  and \<open>0\<close> otherwise.
\<close>

theorem overlap_fields_in_range:
  assumes "list_all deliverable evs"
  shows "0 \<le> overlap (derived (run initialInputs evs))
       \<and> overlap (derived (run initialInputs evs))
           = max 0 (res_A_touch (derived (run initialInputs evs))
                    - res_A (derived (run initialInputs evs)))
       \<and> 0 \<le> overlapPct (derived (run initialInputs evs))
       \<and> overlapPct (derived (run initialInputs evs)) \<le> 100
       \<and> overlapPct (derived (run initialInputs evs))
           = (if res_A_touch (derived (run initialInputs evs)) > 0
              then overlap (derived (run initialInputs evs))
                   / res_A_touch (derived (run initialInputs evs)) * 100
              else 0)"
proof -
  let ?r = "derived (run initialInputs evs)"
  have "0 \<le> in_s (run initialInputs evs)"
    using spacing_factor_in_range [OF assms] by simp
  then have le: "overlapPct ?r \<le> 100"
    unfolding derived_def by (rule overlapPct_le_100)
  have "0 \<le> overlap ?r" by (simp add: overlap_def)
  moreover have "overlap ?r = max 0 (res_A_touch ?r - res_A ?r)" by (simp add: overlap_def)
  moreover have "0 \<le> overlapPct ?r" by (simp add: overlapPct_def overlap_def)
  moreover have "overlapPct ?r
      = (if res_A_touch ?r > 0 then overlap ?r / res_A_touch ?r * 100 else 0)"
    by (simp add: overlapPct_def)
  ultimately show ?thesis using le by blast
qed

theorem overlap_fields_in_range_witness:
  "list_all deliverable [ChangeB 90, TypeS (- 1)]
   \<and> in_s (run initialInputs [ChangeB 90, TypeS (- 1)]) = 0.6
   \<and> overlap (derived (run initialInputs [ChangeB 90, TypeS (- 1)])) = 57.6
   \<and> overlapPct (derived (run initialInputs [ChangeB 90, TypeS (- 1)])) = 40
   \<and> overlapPct (derived (run initialInputs [ChangeB 90, TypeS (- 1)])) \<le> 100"
proof -
  have h: "list_all deliverable [ChangeB 90, TypeS (- 1)]" by simp
  have v: "in_s (run initialInputs [ChangeB 90, TypeS (- 1)]) = 0.6"
    "overlap (derived (run initialInputs [ChangeB 90, TypeS (- 1)])) = 57.6"
    "overlapPct (derived (run initialInputs [ChangeB 90, TypeS (- 1)])) = 40"
    by (simp_all add: initialInputs_def clamp_def derived_def computeAll_def Let_def
        toRadians_def tan_45 overlap_def overlapPct_def)
  from overlap_fields_in_range [OF h] h v show ?thesis by blast
qed

text \<open>
  Claim C10. Every mode string other than \<open>'full'\<close> makes \<open>computeAll\<close> use the beam angle
  itself as the half-angle, and the whole result is the one of mode \<open>'half'\<close>. (An absent
  mode is not such a value: the parameter default turns it into \<open>'full'\<close>.)
\<close>

theorem angleMode_other_than_full_is_half:
  assumes "m \<noteq> ''full''"
  shows "res_thetaDeg (computeAll C D B (Some m) s) = B
       \<and> computeAll C D B (Some m) s = computeAll C D B (Some ''half'') s"
  using assms by (simp add: computeAll_def Let_def)

theorem angleMode_other_than_full_is_half_witness:
  "''FULL'' \<noteq> ''full'' \<and> res_thetaDeg (computeAll 108 36 30 (Some ''FULL'') (Some 1)) = 30
   \<and> computeAll 108 36 30 (Some ''FULL'') (Some 1) = computeAll 108 36 30 (Some ''half'') (Some 1)"
proof -
  have h: "''FULL'' \<noteq> ''full''" by simp
  from angleMode_other_than_full_is_half [OF h, of 108 36 30 "Some 1"] h show ?thesis by blast
qed

subsection \<open>The unit formatter\<close>

lemma length_fmt_base: "7 \<le> length (fmt_base x)"
  by (simp add: fmt_base_def prime_def doublePrime_def)

lemma inchesToFeetIn_Num_not_enDash: "inchesToFeetIn (Num x) \<noteq> enDash"
proof
  assume "inchesToFeetIn (Num x) = enDash"
  then have "length (inchesToFeetIn (Num x)) = 3" by (simp add: enDash_def)
  moreover have "7 \<le> length (inchesToFeetIn (Num x))"
    using length_fmt_base [of x] by simp
  ultimately show False by simp
qed

text \<open>
  Claim C7. The formatter returns the en-dash placeholder exactly for the non-finite
  inputs (NaN and the two infinities); a finite input always gives a feet-and-inches
  string, which is never the placeholder.
\<close>

theorem inchesToFeetIn_sentinel_iff: "(inchesToFeetIn n = enDash) = (\<not> isFinite n)"
proof (cases n)
  case (Num x)
  then show ?thesis
    using inchesToFeetIn_Num_not_enDash [of x] by (simp del: inchesToFeetIn.simps)
qed simp_all

text \<open>
  The numeric parts of the rendering. The remainder after the whole feet lies in
  \<open>[0, 12)\<close>; rounded to eighths it lies in \<open>[0, 12]\<close>, and it is split into whole inches
  and a numerator in \<open>0..7\<close>, so an eighth rounded up to \<open>8/8\<close> is already part of the
  whole inches. The fraction is shown exactly when the numerator is in \<open>1..7\<close>.
\<close>

lemma fmt_remIn_bounds: "0 \<le> fmt_remIn x \<and> fmt_remIn x < 12"
proof -
  have "of_int \<lfloor>\<bar>x\<bar> / 12\<rfloor> \<le> \<bar>x\<bar> / 12" "\<bar>x\<bar> / 12 < of_int \<lfloor>\<bar>x\<bar> / 12\<rfloor> + 1"
    by linarith+
  then have "of_int \<lfloor>\<bar>x\<bar> / 12\<rfloor> * 12 \<le> \<bar>x\<bar>" "\<bar>x\<bar> < of_int \<lfloor>\<bar>x\<bar> / 12\<rfloor> * 12 + 12"
    by linarith+
  then show ?thesis by (simp add: fmt_remIn_def fmt_feet_def fmt_inches_def)
qed

lemma round_remIn_bounds: "0 \<le> round (fmt_remIn x * 8) \<and> round (fmt_remIn x * 8) \<le> 96"
proof -
  have "0 \<le> fmt_remIn x * 8" "fmt_remIn x * 8 < 96" using fmt_remIn_bounds [of x] by simp_all
  then show ?thesis unfolding round_def by (simp add: floor_le_iff le_floor_iff)
qed

lemma fmt_inchesWhole_eq: "fmt_inchesWhole x = round (fmt_remIn x * 8) div 8"
proof -
  have "fmt_inchesWhole x = \<lfloor>of_int (round (fmt_remIn x * 8)) / (of_int 8 :: real)\<rfloor>"
    by (simp add: fmt_inchesWhole_def fmt_eighths_def)
  also have "\<dots> = round (fmt_remIn x * 8) div 8" by (rule floor_divide_of_int_eq)
  finally show ?thesis .
qed

lemma fmt_num_eq: "fmt_num x = round (fmt_remIn x * 8) mod 8"
proof -
  let ?k = "round (fmt_remIn x * 8)"
  have "fmt_frac x * 8 = of_int ?k - of_int (?k div 8) * 8"
    by (simp add: fmt_frac_def fmt_inchesWhole_eq fmt_eighths_def algebra_simps)
  also have "\<dots> = of_int (?k - (?k div 8) * 8)" by simp
  also have "?k - (?k div 8) * 8 = ?k mod 8" by (simp add: minus_div_mult_eq_mod)
  finally have "fmt_frac x * 8 = of_int (?k mod 8)" .
  then show ?thesis by (simp add: fmt_num_def)
qed

lemma fmt_inchesWhole_bounds: "0 \<le> fmt_inchesWhole x \<and> fmt_inchesWhole x \<le> 12"
  using round_remIn_bounds [of x] unfolding fmt_inchesWhole_eq by presburger

lemma fmt_num_bounds: "0 \<le> fmt_num x \<and> fmt_num x \<le> 7"
  by (simp add: fmt_num_eq)

lemma fmt_fracStr_shown: "fmt_fracStr x \<noteq> '''' \<longleftrightarrow> 1 \<le> fmt_num x \<and> fmt_num x \<le> 7"
proof -
  have "digits10 n \<noteq> []" for n by (subst digits10.simps) simp
  then have "numToString i \<noteq> []" for i by (simp add: numToString_def)
  then show ?thesis using fmt_num_bounds [of x] by (auto simp add: fmt_fracStr_def Let_def)
qed

lemma fmt_eighths_split: "fmt_eighths x = of_int (fmt_inchesWhole x) + of_int (fmt_num x) / 8"
proof -
  let ?k = "round (fmt_remIn x * 8)"
  have "8 * real_of_int (?k div 8) + real_of_int (?k mod 8) = real_of_int (8 * (?k div 8) + ?k mod 8)"
    by (simp only: of_int_add of_int_mult of_int_numeral)
  also have "8 * (?k div 8) + ?k mod 8 = ?k" by simp
  finally have "real_of_int ?k = 8 * real_of_int (?k div 8) + real_of_int (?k mod 8)" by simp
  then show ?thesis by (simp add: fmt_eighths_def fmt_inchesWhole_eq fmt_num_eq)
qed

text \<open>
  The whole feet are taken before the remainder is rounded, and nothing is carried
  afterwards: the whole-inch part is \<open>12\<close> exactly when the remainder is at least
  \<open>11 15/16\<close>.
\<close>

lemma fmt_inchesWhole_12: "fmt_inchesWhole x = 12 \<longleftrightarrow> 191 / 16 \<le> fmt_remIn x"
proof -
  let ?k = "round (fmt_remIn x * 8)"
  have "fmt_inchesWhole x = 12 \<longleftrightarrow> ?k = 96"
    using round_remIn_bounds [of x] by (auto simp add: fmt_inchesWhole_eq)
  also have "\<dots> \<longleftrightarrow> 96 \<le> ?k" using round_remIn_bounds [of x] by auto
  also have "\<dots> \<longleftrightarrow> 191 / 16 \<le> fmt_remIn x" unfolding round_def le_floor_iff by auto
  finally show ?thesis .
qed

lemma inchesToFeetIn_example: "inchesToFeetIn (Num 38.585) = ''3'' @ prime @ ''-2 5/8'' @ doublePrime"
  by (simp add: fmt_sign_def fmt_base_def fmt_inStr_def fmt_fracStr_def fmt_num_def fmt_frac_def
      fmt_inchesWhole_def fmt_eighths_def fmt_remIn_def fmt_feet_def fmt_inches_def round_def
      numToString_def digits10.simps digitChar_def Let_def)

text \<open>
  Claim C3 says that a whole-inch part reaching \<open>12\<close> carries into the feet, so that the
  rendered inches are always in \<open>[0, 12)\<close>. The code does not carry: \<open>11.96875\<close> inches
  (\<open>383/32\<close>) has \<open>0\<close> whole feet, and its remainder rounds to \<open>96/8\<close>, so the rendering
  is 0 feet 12 inches where the claim requires 1 foot 0 inches.
\<close>

theorem inchesToFeetIn_renders_twelve_inches:
  "inchesToFeetIn (Num (383 / 32)) = ''0'' @ prime @ ''-12'' @ doublePrime
   \<and> fmt_feet (383 / 32) = 0 \<and> fmt_inchesWhole (383 / 32) = 12 \<and> fmt_num (383 / 32) = 0"
  by (simp add: fmt_sign_def fmt_base_def fmt_inStr_def fmt_fracStr_def fmt_num_def fmt_frac_def
      fmt_inchesWhole_def fmt_eighths_def fmt_remIn_def fmt_feet_def fmt_inches_def round_def
      numToString_def digits10.simps digitChar_def Let_def)

subsection \<open>The drawing\<close>

text \<open>
  Claim C8. For every result the two fixtures are placed symmetrically about the centre
  of the drawable area (which is also the centre of the canvas): their midpoint is
  \<open>center\<close>, and the right one lies \<open>A * xScale\<close> pixels to the right of the left one, where
  \<open>xScale = drawableWidth / (max(1, A + 2 r) * 1.1)\<close>. The two circles of the drawing are
  at these x-coordinates on the ceiling line.
\<close>

theorem fixtures_symmetric_about_center:
  "(xLeft res + xRight res) / 2 = center
   \<and> center = margin_left + drawableWidth / 2 \<and> center = svgWidth / 2
   \<and> xRight res - xLeft res = res_A res * xScale res
   \<and> xScale res = drawableWidth / (max 1 (res_A res + 2 * res_r res) * 1.1)
   \<and> diagram res ! 4 = Circle (xLeft res) yCeil 5
   \<and> diagram res ! 5 = Circle (xRight res) yCeil 5"
proof -
  have "(xLeft res + xRight res) / 2 = center" by (simp add: xLeft_def xRight_def)
  moreover have "center = margin_left + drawableWidth / 2" by (simp add: center_def)
  moreover have "center = svgWidth / 2"
    by (simp add: center_def drawableWidth_def margin_left_def margin_right_def svgWidth_def)
  moreover have "xRight res - xLeft res = res_A res * xScale res"
    by (simp add: xLeft_def xRight_def)
  moreover have "xScale res = drawableWidth / (max 1 (res_A res + 2 * res_r res) * 1.1)"
    by (simp only: xScale_def totalWidthIn_def)
  moreover have "diagram res ! 4 = Circle (xLeft res) yCeil 5"
    "diagram res ! 5 = Circle (xRight res) yCeil 5"
    by (simp_all add: diagram_def)
  ultimately show ?thesis by blast
qed

text \<open>
  Claim C9. The drawing holds the overlap annotation exactly when the overlap is positive
  (none when the beams leave a gap or just touch, both of which give overlap \<open>0\<close>), and
  then it holds one. Its left end is \<open>xLeft + r * xScale\<close>, where the right edge of the
  left beam meets the work plane, and its right end is \<open>xRight - r * xScale\<close>, where the
  left edge of the right beam meets it: these are the end points of the two inner beam
  lines, which run from the fixtures on the ceiling line down to the work-plane line.
\<close>

theorem overlap_annotation_iff_positive:
  "filter isOverlapAnnotation (diagram res) =
     (if overlap res > 0
      then [Group [DimArrow (xLeft res + res_r res * xScale res)
                     (xRight res - res_r res * xScale res)
                     (yWork - 14) (LabelOverlap (overlap res) (overlapPct res))]]
      else [])
   \<and> diagram res ! 7 = Line (xLeft res) yCeil (xLeft res + res_r res * xScale res) yWork
   \<and> diagram res ! 8 = Line (xRight res) yCeil (xRight res - res_r res * xScale res) yWork
   \<and> diagram res ! 2 = Line margin_left yWork (svgWidth - margin_right) yWork
   \<and> xLeft res = center - (res_A res / 2) * xScale res
   \<and> xRight res = center + (res_A res / 2) * xScale res"
proof -
  have "filter isOverlapAnnotation (diagram res) =
     (if overlap res > 0
      then [Group [DimArrow (xLeft res + res_r res * xScale res)
                     (xRight res - res_r res * xScale res)
                     (yWork - 14) (LabelOverlap (overlap res) (overlapPct res))]]
      else [])"
    by (simp add: diagram_def beamFootLeftR_def beamFootRightL_def)
  moreover have "diagram res ! 7
      = Line (xLeft res) yCeil (xLeft res + res_r res * xScale res) yWork"
    by (simp add: diagram_def beamFootLeftR_def)
  moreover have "diagram res ! 8
      = Line (xRight res) yCeil (xRight res - res_r res * xScale res) yWork"
    by (simp add: diagram_def beamFootRightL_def)
  moreover have "diagram res ! 2 = Line margin_left yWork (svgWidth - margin_right) yWork"
    by (simp add: diagram_def)
  moreover have "xLeft res = center - (res_A res / 2) * xScale res" by (simp only: xLeft_def)
  moreover have "xRight res = center + (res_A res / 2) * xScale res" by (simp only: xRight_def)
  ultimately show ?thesis by blast
qed

end
